theory Spec2Isabelle
  imports Main "HOL-Library.Monad_Syntax"
begin

section \<open>The OKR Phoenix development server (simple_server.py)\<close>

text \<open>
  \<^verbatim>\<open>simple_server.py\<close> defines one class, \<^verbatim>\<open>CORSHTTPRequestHandler\<close>, a subclass of
  \<^verbatim>\<open>http.server.SimpleHTTPRequestHandler\<close> that overrides \<^verbatim>\<open>end_headers\<close> and
  \<^verbatim>\<open>log_message\<close> and adds \<^verbatim>\<open>do_OPTIONS\<close>, and a main block that starts a
  \<^verbatim>\<open>socketserver.TCPServer\<close> on port 8000.

  The three methods and the main block are translated from \<^verbatim>\<open>simple_server.py\<close>. The
  methods they call or that call them are inherited from the Python standard library
  (\<^verbatim>\<open>http/server.py\<close>, \<^verbatim>\<open>socketserver.py\<close>, \<^verbatim>\<open>posixpath.py\<close>, CPython 3.11); they are
  translated from the library source, each one under the library's own name, and the
  text before each definition says which library function it is. Library functions
  that only produce text no property depends on (the HTML of an error page, the MIME
  type guess, date formatting) are fields of the record \<open>env\<close>, together with the file
  system and the clock.

  A Python \<^verbatim>\<open>str\<close> of the handler is a \<open>string\<close>: the request line is decoded as
  ISO-8859-1, so every character the handler sees is a code point below 256.
  Standard output is a text stream that also receives the emoji of the banner, so it
  holds code points as natural numbers.
\<close>

subsection \<open>Python strings\<close>

definition digit_char :: "nat \<Rightarrow> char" where
  "digit_char n = ''0123456789'' ! (n mod 10)"

text \<open>\<^verbatim>\<open>str(n)\<close> for a non-negative integer.\<close>

fun str_nat :: "nat \<Rightarrow> string" where
  "str_nat n = (if n < 10 then [digit_char n] else str_nat (n div 10) @ [digit_char n])"

declare str_nat.simps [simp del]

definition str_int :: "int \<Rightarrow> string" where
  "str_int i = (if i < 0 then CHR ''-'' # str_nat (nat (- i)) else str_nat (nat i))"

text \<open>\<^verbatim>\<open>str.lower()\<close> on code points below 256.\<close>

definition lower_char :: "char \<Rightarrow> char" where
  "lower_char c =
     (let n = (of_char c :: nat)
      in if (65 \<le> n \<and> n \<le> 90) \<or> (192 \<le> n \<and> n \<le> 222 \<and> n \<noteq> 215)
         then char_of (n + 32) else c)"

definition lower :: "string \<Rightarrow> string" where
  "lower s = map lower_char s"

definition startswith :: "string \<Rightarrow> string \<Rightarrow> bool" where
  "startswith s p = (take (length p) s = p)"

definition endswith :: "string \<Rightarrow> string \<Rightarrow> bool" where
  "endswith s p = (length p \<le> length s \<and> drop (length s - length p) s = p)"

text \<open>\<^verbatim>\<open>str.isspace\<close> on code points below 256, and \<^verbatim>\<open>str.rstrip()\<close>.\<close>

definition isspace :: "char \<Rightarrow> bool" where
  "isspace c = ((of_char c :: nat) \<in> {9, 10, 11, 12, 13, 28, 29, 30, 31, 32, 133, 160})"

definition rstrip :: "string \<Rightarrow> string" where
  "rstrip s = rev (dropWhile isspace (rev s))"

text \<open>\<^verbatim>\<open>s.split(sep)\<close> for a one-character separator, and \<^verbatim>\<open>sep.join(words)\<close>.\<close>

fun split_on :: "char \<Rightarrow> string \<Rightarrow> string list" where
  "split_on sep [] = [[]]"
| "split_on sep (c # cs) =
     (if c = sep then [] # split_on sep cs
      else (case split_on sep cs of w # ws \<Rightarrow> (c # w) # ws | [] \<Rightarrow> [[c]]))"

fun join_with :: "string \<Rightarrow> string list \<Rightarrow> string" where
  "join_with sep [] = []"
| "join_with sep [w] = w"
| "join_with sep (w # ws) = w @ sep @ join_with sep ws"

text \<open>
  The \<^verbatim>\<open>%\<close> operator of \<^verbatim>\<open>str\<close>, for the conversions \<^verbatim>\<open>%s\<close>, \<^verbatim>\<open>%d\<close> and \<^verbatim>\<open>%%\<close> and a
  tuple of arguments. \<open>None\<close> is the \<^verbatim>\<open>TypeError\<close> or \<^verbatim>\<open>ValueError\<close> that Python raises
  when the arguments do not fit the format.
\<close>

datatype py_value = PyStr string | PyInt int

fun percent :: "string \<Rightarrow> py_value list \<Rightarrow> string option" where
  "percent [] [] = Some []"
| "percent [] (a # as) = None"
| "percent (c # cs) as =
     (if c \<noteq> CHR ''%'' then map_option ((#) c) (percent cs as)
      else (case cs of
          [] \<Rightarrow> None
        | k # rest \<Rightarrow>
            if k = CHR ''%'' then map_option ((#) CHR ''%'') (percent rest as)
            else if k = CHR ''s'' then
              (case as of
                 [] \<Rightarrow> None
               | PyStr s # as' \<Rightarrow> map_option ((@) s) (percent rest as')
               | PyInt i # as' \<Rightarrow> map_option ((@) (str_int i)) (percent rest as'))
            else if k = CHR ''d'' then
              (case as of
                 PyInt i # as' \<Rightarrow> map_option ((@) (str_int i)) (percent rest as')
               | _ \<Rightarrow> None)
            else None))"

text \<open>
  \<^verbatim>\<open>repr\<close> of a \<^verbatim>\<open>str\<close> of code points below 256: double quotes when the string has
  a single quote and no double quote, single quotes otherwise; the quote and the
  backslash are escaped, tab, newline and carriage return are \<^verbatim>\<open>\t\<close>, \<^verbatim>\<open>\n\<close> and
  \<^verbatim>\<open>\r\<close>, and the other code points that are not printable are \<^verbatim>\<open>\xNN\<close>.
\<close>

definition hex_digit :: "nat \<Rightarrow> char" where
  "hex_digit n = ''0123456789abcdef'' ! (n mod 16)"

definition repr_char :: "char \<Rightarrow> char \<Rightarrow> string" where
  "repr_char quote c =
     (let n = (of_char c :: nat)
      in if c = quote \<or> c = CHR 0x5C then [CHR 0x5C, c]
         else if n = 9 then [CHR 0x5C, CHR ''t'']
         else if n = 10 then [CHR 0x5C, CHR ''n'']
         else if n = 13 then [CHR 0x5C, CHR ''r'']
         else if n < 32 \<or> (127 \<le> n \<and> n \<le> 160) \<or> n = 173
           then [CHR 0x5C, CHR ''x'', hex_digit (n div 16), hex_digit n]
         else [c])"

definition py_repr :: "string \<Rightarrow> string" where
  "py_repr s =
     (let quote = (if CHR 0x27 \<in> set s \<and> CHR 0x22 \<notin> set s then CHR 0x22 else CHR 0x27)
      in quote # concat (map (repr_char quote) s) @ [quote])"

subsection \<open>Time\<close>

text \<open>
  \<^verbatim>\<open>time.strftime('%Y-%m-%d %H:%M:%S')\<close> formats the local time: \<^verbatim>\<open>%Y\<close> is the year in
  decimal, the other fields are decimal numbers padded with a zero to two digits.
\<close>

record struct_time =
  tm_year :: nat
  tm_mon :: nat
  tm_mday :: nat
  tm_hour :: nat
  tm_min :: nat
  tm_sec :: nat

definition pad2 :: "nat \<Rightarrow> string" where
  "pad2 n = (if n < 10 then CHR ''0'' # str_nat n else str_nat n)"

definition strftime :: "struct_time \<Rightarrow> string" where
  "strftime t =
     str_nat (tm_year t) @ ''-'' @ pad2 (tm_mon t) @ ''-'' @ pad2 (tm_mday t) @ '' '' @
     pad2 (tm_hour t) @ '':'' @ pad2 (tm_min t) @ '':'' @ pad2 (tm_sec t)"

subsection \<open>Standard output\<close>

text \<open>
  \<^verbatim>\<open>sys.stdout\<close>: \<^verbatim>\<open>write\<close> appends to the stream's buffer, \<^verbatim>\<open>flush\<close> hands the
  buffer to the operating system.
\<close>

record stdout =
  pending :: "nat list"
  emitted :: "nat list"

definition text_of :: "string \<Rightarrow> nat list" where
  "text_of s = map of_char s"

definition stdout_write :: "nat list \<Rightarrow> stdout \<Rightarrow> stdout" where
  "stdout_write s out = out\<lparr>pending := pending out @ s\<rparr>"

definition stdout_flush :: "stdout \<Rightarrow> stdout" where
  "stdout_flush out = \<lparr>pending = [], emitted = emitted out @ pending out\<rparr>"

subsection \<open>The environment of a request\<close>

record file_obj =
  content :: string
  st_size :: nat
  st_mtime :: int

record filesystem =
  isdir :: "string \<Rightarrow> bool"
  isfile :: "string \<Rightarrow> bool"
  islink :: "string \<Rightarrow> bool"
  open_rb :: "string \<Rightarrow> file_obj option"
  listdir :: "string \<Rightarrow> string list option"

text \<open>
  \<open>open_rb p = None\<close> and \<open>listdir p = None\<close> stand for \<^verbatim>\<open>OSError\<close>. \<open>st_mtime\<close> is the
  modification time in whole seconds. \<open>localtime n\<close> is what \<^verbatim>\<open>time.localtime()\<close>
  returns at the \<open>n\<close>-th reading of the clock during a request.
\<close>

record env =
  fs :: filesystem
  localtime :: "nat \<Rightarrow> struct_time"
  date_time_string :: "int option \<Rightarrow> string"
  version_string :: string
  error_page :: "nat \<Rightarrow> string \<Rightarrow> string \<Rightarrow> string"
  guess_type :: "string \<Rightarrow> string"
  pct_decode :: "string \<Rightarrow> string"
  urlsplit_path :: "string \<Rightarrow> string"
  url_add_slash :: "string \<Rightarrow> string"
  render_listing :: "string \<Rightarrow> (string \<times> bool \<times> bool) list \<Rightarrow> string"
  ims_utc :: "string \<Rightarrow> int option"

subsection \<open>The request handler\<close>

text \<open>
  One entry of \<^verbatim>\<open>_headers_buffer\<close> is one formatted line; it is kept as the arguments of
  its format, and \<open>line_bytes\<close> gives the bytes. One entry of \<open>wfile\<close> is one call of
  \<^verbatim>\<open>wfile.write\<close>: the joined header buffer or a piece of the body.
\<close>

datatype hline = Status_Line string nat string | Header_Line string string | End_Line

fun line_bytes :: "hline \<Rightarrow> string" where
  "line_bytes (Status_Line version code message) =
     version @ '' '' @ str_nat code @ '' '' @ message @ [CHR 13, CHR 10]"
| "line_bytes (Header_Line keyword val) = keyword @ '': '' @ val @ [CHR 13, CHR 10]"
| "line_bytes End_Line = [CHR 13, CHR 10]"

datatype wire = Header_Block "hline list" | Payload string

fun wire_bytes :: "wire \<Rightarrow> string" where
  "wire_bytes (Header_Block ls) = concat (map line_bytes ls)"
| "wire_bytes (Payload b) = b"

text \<open>
  The handler after \<^verbatim>\<open>parse_request\<close> has returned \<^verbatim>\<open>True\<close>: \<open>command\<close>, \<open>path\<close>,
  \<open>request_version\<close>, \<open>requestline\<close> and \<open>headers\<close> are set from the request,
  \<open>directory\<close> is \<^verbatim>\<open>os.getcwd()\<close>.
\<close>

record handler =
  command :: string
  path :: string
  request_version :: string
  requestline :: string
  headers :: "(string \<times> string) list"
  directory :: string
  close_connection :: bool
  headers_buffer :: "hline list"
  wfile :: "wire list"
  sys_stdout :: stdout
  clock_reads :: nat

definition protocol_version :: string where
  "protocol_version = ''HTTP/1.0''"

definition error_content_type :: string where
  "error_content_type = ''text/html;charset=utf-8''"

text \<open>The entries of \<^verbatim>\<open>BaseHTTPRequestHandler.responses\<close> for the codes the handler sends.\<close>

definition responses :: "nat \<Rightarrow> (string \<times> string) option" where
  "responses code =
     (if code = 200 then Some (''OK'', ''Request fulfilled, document follows'')
      else if code = 301 then
        Some (''Moved Permanently'', ''Object moved permanently -- see URI list'')
      else if code = 304 then
        Some (''Not Modified'', ''Document has not changed since given time'')
      else if code = 404 then Some (''Not Found'', ''Nothing matches the given URI'')
      else if code = 501 then
        Some (''Not Implemented'', ''Server does not support this operation'')
      else None)"

text \<open>
  \<^verbatim>\<open>CORSHTTPRequestHandler.log_message\<close>:
  \<^verbatim>\<open>
    def log_message(self, format, *args):
        timestamp = time.strftime('%Y-%m-%d %H:%M:%S')
        sys.stdout.write(f"[{timestamp}] {format % args}\n")
        sys.stdout.flush()
  \<close>
\<close>

definition log_message :: "env \<Rightarrow> handler \<Rightarrow> string \<Rightarrow> py_value list \<Rightarrow> handler option" where
  "log_message e h format args =
     (let timestamp = strftime (localtime e (clock_reads h));
          h = h\<lparr>clock_reads := clock_reads h + 1\<rparr>
      in case percent format args of
           None \<Rightarrow> None
         | Some message \<Rightarrow>
             Some (h\<lparr>sys_stdout :=
               stdout_flush
                 (stdout_write (text_of (''['' @ timestamp @ ''] '' @ message @ [CHR 10]))
                    (sys_stdout h))\<rparr>))"

text \<open>
  \<^verbatim>\<open>BaseHTTPRequestHandler.log_request\<close> and \<^verbatim>\<open>log_error\<close> (library): both call
  \<^verbatim>\<open>self.log_message\<close>, which is the override above.
  \<^verbatim>\<open>
    def log_request(self, code='-', size='-'):
        self.log_message('"%s" %s %s', self.requestline, str(code), str(size))
    def log_error(self, format, *args):
        self.log_message(format, *args)
  \<close>
\<close>

definition log_request :: "env \<Rightarrow> handler \<Rightarrow> nat \<Rightarrow> handler option" where
  "log_request e h code =
     log_message e h [CHR 0x22, CHR ''%'', CHR ''s'', CHR 0x22, CHR '' '', CHR ''%'', CHR ''s'',
                      CHR '' '', CHR ''%'', CHR ''s'']
       [PyStr (requestline h), PyStr (str_nat code), PyStr ''-'']"

definition log_error :: "env \<Rightarrow> handler \<Rightarrow> string \<Rightarrow> py_value list \<Rightarrow> handler option" where
  "log_error e h format args = log_message e h format args"

text \<open>
  \<^verbatim>\<open>BaseHTTPRequestHandler.send_response_only\<close>, \<^verbatim>\<open>send_header\<close>, \<^verbatim>\<open>end_headers\<close>
  and \<^verbatim>\<open>flush_headers\<close> (library):
  \<^verbatim>\<open>
    def send_response_only(self, code, message=None):
        if self.request_version != 'HTTP/0.9':
            if message is None:
                if code in self.responses:
                    message = self.responses[code][0]
                else:
                    message = ''
            self._headers_buffer.append(("%s %d %s\r\n" %
                    (self.protocol_version, code, message)).encode('latin-1', 'strict'))
    def send_header(self, keyword, value):
        if self.request_version != 'HTTP/0.9':
            self._headers_buffer.append(
                ("%s: %s\r\n" % (keyword, value)).encode('latin-1', 'strict'))
        if keyword.lower() == 'connection':
            if value.lower() == 'close':
                self.close_connection = True
            elif value.lower() == 'keep-alive':
                self.close_connection = False
    def end_headers(self):
        if self.request_version != 'HTTP/0.9':
            self._headers_buffer.append(b"\r\n")
            self.flush_headers()
    def flush_headers(self):
        if hasattr(self, '_headers_buffer'):
            self.wfile.write(b"".join(self._headers_buffer))
            self._headers_buffer = []
  \<close>
  The attribute \<^verbatim>\<open>_headers_buffer\<close>, created on first use, is the empty list before.
\<close>

definition send_response_only :: "handler \<Rightarrow> nat \<Rightarrow> string option \<Rightarrow> handler" where
  "send_response_only h code message =
     (if request_version h \<noteq> ''HTTP/0.9'' then
        let message =
          (case message of
             None \<Rightarrow> (case responses code of Some (shortmsg, longmsg) \<Rightarrow> shortmsg | None \<Rightarrow> [])
           | Some m \<Rightarrow> m)
        in h\<lparr>headers_buffer := headers_buffer h @ [Status_Line protocol_version code message]\<rparr>
      else h)"

definition send_header :: "handler \<Rightarrow> string \<Rightarrow> string \<Rightarrow> handler" where
  "send_header h keyword val =
     (let h = (if request_version h \<noteq> ''HTTP/0.9''
               then h\<lparr>headers_buffer := headers_buffer h @ [Header_Line keyword val]\<rparr>
               else h)
      in if lower keyword = ''connection'' then
           (if lower val = ''close'' then h\<lparr>close_connection := True\<rparr>
            else if lower val = ''keep-alive'' then h\<lparr>close_connection := False\<rparr>
            else h)
         else h)"

definition flush_headers :: "handler \<Rightarrow> handler" where
  "flush_headers h =
     h\<lparr>wfile := wfile h @ [Header_Block (headers_buffer h)], headers_buffer := []\<rparr>"

definition base_end_headers :: "handler \<Rightarrow> handler" where
  "base_end_headers h =
     (if request_version h \<noteq> ''HTTP/0.9''
      then flush_headers (h\<lparr>headers_buffer := headers_buffer h @ [End_Line]\<rparr>)
      else h)"

text \<open>
  \<^verbatim>\<open>CORSHTTPRequestHandler.end_headers\<close>:
  \<^verbatim>\<open>
    def end_headers(self):
        self.send_header('Access-Control-Allow-Origin', '*')
        self.send_header('Access-Control-Allow-Methods', 'GET, POST, OPTIONS, PUT, DELETE')
        self.send_header('Access-Control-Allow-Headers', 'Content-Type, Authorization')
        super().end_headers()
  \<close>
\<close>

definition end_headers :: "handler \<Rightarrow> handler" where
  "end_headers h =
     (let h = send_header h ''Access-Control-Allow-Origin'' ''*'';
          h = send_header h ''Access-Control-Allow-Methods'' ''GET, POST, OPTIONS, PUT, DELETE'';
          h = send_header h ''Access-Control-Allow-Headers'' ''Content-Type, Authorization''
      in base_end_headers h)"

text \<open>
  \<^verbatim>\<open>BaseHTTPRequestHandler.send_response\<close> (library):
  \<^verbatim>\<open>
    def send_response(self, code, message=None):
        self.log_request(code)
        self.send_response_only(code, message)
        self.send_header('Server', self.version_string())
        self.send_header('Date', self.date_time_string())
  \<close>
\<close>

definition send_response :: "env \<Rightarrow> handler \<Rightarrow> nat \<Rightarrow> string option \<Rightarrow> handler option" where
  "send_response e h code message =
     do {
       h \<leftarrow> log_request e h code;
       let h = send_response_only h code message;
       let h = send_header h ''Server'' (version_string e);
       let h = send_header h ''Date'' (date_time_string e None);
       Some h
     }"

text \<open>
  \<^verbatim>\<open>CORSHTTPRequestHandler.do_OPTIONS\<close>:
  \<^verbatim>\<open>
    def do_OPTIONS(self):
        self.send_response(200)
        self.end_headers()
  \<close>
\<close>

definition do_OPTIONS :: "env \<Rightarrow> handler \<Rightarrow> handler option" where
  "do_OPTIONS e h =
     do {
       h \<leftarrow> send_response e h 200 None;
       Some (end_headers h)
     }"

text \<open>
  \<^verbatim>\<open>BaseHTTPRequestHandler.send_error\<close> (library):
  \<^verbatim>\<open>
    def send_error(self, code, message=None, explain=None):
        try:
            shortmsg, longmsg = self.responses[code]
        except KeyError:
            shortmsg, longmsg = '???', '???'
        if message is None:
            message = shortmsg
        if explain is None:
            explain = longmsg
        self.log_error("code %d, message %s", code, message)
        self.send_response(code, message)
        self.send_header('Connection', 'close')
        body = None
        if (code >= 200 and
            code not in (HTTPStatus.NO_CONTENT, HTTPStatus.RESET_CONTENT,
                         HTTPStatus.NOT_MODIFIED)):
            content = (self.error_message_format % {...})
            body = content.encode('UTF-8', 'replace')
            self.send_header("Content-Type", self.error_content_type)
            self.send_header('Content-Length', str(len(body)))
        self.end_headers()
        if self.command != 'HEAD' and body:
            self.wfile.write(body)
  \<close>
  \<open>error_page e code message explain\<close> is the encoded HTML page.
\<close>

definition send_error :: "env \<Rightarrow> handler \<Rightarrow> nat \<Rightarrow> string option \<Rightarrow> string option \<Rightarrow> handler option" where
  "send_error e h code message explain =
     (let (shortmsg, longmsg) =
            (case responses code of Some r \<Rightarrow> r | None \<Rightarrow> (''???'', ''???''));
          message = (case message of None \<Rightarrow> shortmsg | Some m \<Rightarrow> m);
          explain = (case explain of None \<Rightarrow> longmsg | Some x \<Rightarrow> x)
      in do {
        h \<leftarrow> log_error e h ''code %d, message %s'' [PyInt (int code), PyStr message];
        h \<leftarrow> send_response e h code (Some message);
        let h = send_header h ''Connection'' ''close'';
        let body =
          (if code \<ge> 200 \<and> code \<notin> {204, 205, 304}
           then Some (error_page e code message explain) else None);
        let h =
          (case body of
             None \<Rightarrow> h
           | Some b \<Rightarrow>
               send_header (send_header h ''Content-Type'' error_content_type)
                 ''Content-Length'' (str_nat (length b)));
        let h = end_headers h;
        Some (case body of
                None \<Rightarrow> h
              | Some b \<Rightarrow>
                  if command h \<noteq> ''HEAD'' \<and> b \<noteq> [] then h\<lparr>wfile := wfile h @ [Payload b]\<rparr>
                  else h)
      })"

subsection \<open>Path translation\<close>

text \<open>
  \<^verbatim>\<open>posixpath.normpath\<close> (library):
  \<^verbatim>\<open>
    def normpath(path):
        if path == empty:
            return dot
        initial_slashes = path.startswith(sep)
        if (initial_slashes and
            path.startswith(sep*2) and not path.startswith(sep*3)):
            initial_slashes = 2
        comps = path.split(sep)
        new_comps = []
        for comp in comps:
            if comp in (empty, dot):
                continue
            if (comp != dotdot or (not initial_slashes and not new_comps) or
                 (new_comps and new_comps[-1] == dotdot)):
                new_comps.append(comp)
            elif new_comps:
                new_comps.pop()
        comps = new_comps
        path = sep.join(comps)
        if initial_slashes:
            path = sep*initial_slashes + path
        return path or dot
  \<close>
\<close>

fun normpath_loop :: "nat \<Rightarrow> string list \<Rightarrow> string list \<Rightarrow> string list" where
  "normpath_loop initial_slashes [] new_comps = new_comps"
| "normpath_loop initial_slashes (part # comps) new_comps =
     (if part = [] \<or> part = ''.'' then normpath_loop initial_slashes comps new_comps
      else if part \<noteq> ''..'' \<or> (initial_slashes = 0 \<and> new_comps = []) \<or>
              (new_comps \<noteq> [] \<and> last new_comps = ''..'')
        then normpath_loop initial_slashes comps (new_comps @ [part])
      else if new_comps \<noteq> [] then normpath_loop initial_slashes comps (butlast new_comps)
      else normpath_loop initial_slashes comps new_comps)"

definition normpath :: "string \<Rightarrow> string" where
  "normpath p =
     (if p = [] then ''.''
      else
        let initial_slashes =
              (if startswith p ''/''
               then (if startswith p ''//'' \<and> \<not> startswith p ''///'' then 2 else 1)
               else (0::nat));
            comps = normpath_loop initial_slashes (split_on CHR ''/'' p) [];
            p = replicate initial_slashes CHR ''/'' @ join_with ''/'' comps
        in if p = [] then ''.'' else p)"

text \<open>
  \<^verbatim>\<open>posixpath.join\<close> for two components and \<^verbatim>\<open>posixpath.dirname\<close> (library):
  \<^verbatim>\<open>
    def join(a, *p):
        path = a
        for b in p:
            if b.startswith(sep):
                path = b
            elif not path or path.endswith(sep):
                path += b
            else:
                path += sep + b
        return path
    def dirname(p):
        i = p.rfind(sep) + 1
        head = p[:i]
        if head and head != sep*len(head):
            head = head.rstrip(sep)
        return head
  \<close>
\<close>

definition path_join :: "string \<Rightarrow> string \<Rightarrow> string" where
  "path_join a b =
     (if startswith b ''/'' then b
      else if a = [] \<or> endswith a ''/'' then a @ b
      else a @ ''/'' @ b)"

definition dirname :: "string \<Rightarrow> string" where
  "dirname p =
     (let i = length p - length (takeWhile (\<lambda>c. c \<noteq> CHR ''/'') (rev p));
          head = take i p
      in if head \<noteq> [] \<and> head \<noteq> replicate (length head) CHR ''/''
         then rev (dropWhile (\<lambda>c. c = CHR ''/'') (rev head))
         else head)"

text \<open>
  \<^verbatim>\<open>urllib.parse.unquote\<close> (library) returns a string without \<^verbatim>\<open>%\<close> unchanged;
  \<open>pct_decode e\<close> is what it returns for the others.
  \<^verbatim>\<open>
    def unquote(string, encoding='utf-8', errors='replace'):
        if '%' not in string:
            string.split
            return string
        ...
  \<close>
\<close>

definition unquote :: "env \<Rightarrow> string \<Rightarrow> string" where
  "unquote e s = (if CHR ''%'' \<notin> set s then s else pct_decode e s)"

text \<open>
  \<^verbatim>\<open>SimpleHTTPRequestHandler.translate_path\<close> (library); \<open>before c s\<close> is
  \<^verbatim>\<open>s.split(c, 1)[0]\<close>.
  \<^verbatim>\<open>
    def translate_path(self, path):
        path = path.split('?',1)[0]
        path = path.split('#',1)[0]
        trailing_slash = path.rstrip().endswith('/')
        try:
            path = urllib.parse.unquote(path, errors='surrogatepass')
        except UnicodeDecodeError:
            path = urllib.parse.unquote(path)
        path = posixpath.normpath(path)
        words = path.split('/')
        words = filter(None, words)
        path = self.directory
        for word in words:
            if os.path.dirname(word) or word in (os.curdir, os.pardir):
                continue
            path = os.path.join(path, word)
        if trailing_slash:
            path += '/'
        return path
  \<close>
\<close>

definition before :: "char \<Rightarrow> string \<Rightarrow> string" where
  "before c s = takeWhile (\<lambda>x. x \<noteq> c) s"

fun translate_loop :: "string \<Rightarrow> string list \<Rightarrow> string" where
  "translate_loop p [] = p"
| "translate_loop p (word # words) =
     (if dirname word \<noteq> [] \<or> word = ''.'' \<or> word = ''..'' then translate_loop p words
      else translate_loop (path_join p word) words)"

definition translate_path :: "env \<Rightarrow> string \<Rightarrow> string \<Rightarrow> string" where
  "translate_path e dir p =
     (let p = before CHR ''?'' p;
          p = before CHR ''#'' p;
          trailing_slash = endswith (rstrip p) ''/'';
          p = unquote e p;
          p = normpath p;
          words = filter (\<lambda>w. w \<noteq> []) (split_on CHR ''/'' p);
          p = translate_loop dir words
      in if trailing_slash then p @ ''/'' else p)"

subsection \<open>Serving files\<close>

text \<open>
  Request headers are an \<^verbatim>\<open>email.message.Message\<close>: \<^verbatim>\<open>name in headers\<close> and
  \<^verbatim>\<open>headers[name]\<close> compare names in lower case, and \<^verbatim>\<open>headers[name]\<close> is the value of
  the first match.
\<close>

definition hdr_contains :: "(string \<times> string) list \<Rightarrow> string \<Rightarrow> bool" where
  "hdr_contains hs name = list_ex (\<lambda>(k, v). lower k = lower name) hs"

definition hdr_get :: "(string \<times> string) list \<Rightarrow> string \<Rightarrow> string option" where
  "hdr_get hs name = map_option snd (find (\<lambda>(k, v). lower k = lower name) hs)"

text \<open>
  \<^verbatim>\<open>SimpleHTTPRequestHandler.list_directory\<close> (library). \<open>render_listing e p entries\<close> is
  the encoded HTML of the listing for the request path \<open>p\<close>, the entries each with
  \<^verbatim>\<open>os.path.isdir\<close> and \<^verbatim>\<open>os.path.islink\<close> of its full name.
  \<^verbatim>\<open>
    def list_directory(self, path):
        try:
            list = os.listdir(path)
        except OSError:
            self.send_error(HTTPStatus.NOT_FOUND, "No permission to list directory")
            return None
        ...
        encoded = '\n'.join(r).encode(enc, 'surrogateescape')
        f = io.BytesIO()
        f.write(encoded)
        f.seek(0)
        self.send_response(HTTPStatus.OK)
        self.send_header("Content-type", "text/html; charset=%s" % enc)
        self.send_header("Content-Length", str(len(encoded)))
        self.end_headers()
        return f
  \<close>
  The file object returned is the body still to be copied; \<open>enc\<close> is \<^verbatim>\<open>utf-8\<close>.
\<close>

definition list_directory :: "env \<Rightarrow> handler \<Rightarrow> string \<Rightarrow> (handler \<times> string option) option" where
  "list_directory e h p =
     (case listdir (fs e) p of
        None \<Rightarrow>
          map_option (\<lambda>h. (h, None))
            (send_error e h 404 (Some ''No permission to list directory'') None)
      | Some names \<Rightarrow>
          let encoded =
                render_listing e (path h)
                  (map (\<lambda>name. (name, isdir (fs e) (path_join p name),
                                  islink (fs e) (path_join p name))) names)
          in do {
            h \<leftarrow> send_response e h 200 None;
            let h = send_header h ''Content-type'' ''text/html; charset=utf-8'';
            let h = send_header h ''Content-Length'' (str_nat (length encoded));
            let h = end_headers h;
            Some (h, Some encoded)
          })"

text \<open>
  \<^verbatim>\<open>SimpleHTTPRequestHandler.send_head\<close> (library). The result is the handler and the
  content of the file object still to be copied, if any.
  \<^verbatim>\<open>
    def send_head(self):
        path = self.translate_path(self.path)
        f = None
        if os.path.isdir(path):
            parts = urllib.parse.urlsplit(self.path)
            if not parts.path.endswith('/'):
                self.send_response(HTTPStatus.MOVED_PERMANENTLY)
                new_parts = (parts[0], parts[1], parts[2] + '/', parts[3], parts[4])
                new_url = urllib.parse.urlunsplit(new_parts)
                self.send_header("Location", new_url)
                self.send_header("Content-Length", "0")
                self.end_headers()
                return None
            for index in "index.html", "index.htm":
                index = os.path.join(path, index)
                if os.path.isfile(index):
                    path = index
                    break
            else:
                return self.list_directory(path)
        ctype = self.guess_type(path)
        if path.endswith("/"):
            self.send_error(HTTPStatus.NOT_FOUND, "File not found")
            return None
        try:
            f = open(path, 'rb')
        except OSError:
            self.send_error(HTTPStatus.NOT_FOUND, "File not found")
            return None
        try:
            fs = os.fstat(f.fileno())
            if ("If-Modified-Since" in self.headers
                    and "If-None-Match" not in self.headers):
                try:
                    ims = email.utils.parsedate_to_datetime(
                        self.headers["If-Modified-Since"])
                except (TypeError, IndexError, OverflowError, ValueError):
                    pass
                else:
                    if ims.tzinfo is None:
                        ims = ims.replace(tzinfo=datetime.timezone.utc)
                    if ims.tzinfo is datetime.timezone.utc:
                        last_modif = datetime.datetime.fromtimestamp(
                            fs.st_mtime, datetime.timezone.utc)
                        last_modif = last_modif.replace(microsecond=0)
                        if last_modif <= ims:
                            self.send_response(HTTPStatus.NOT_MODIFIED)
                            self.end_headers()
                            f.close()
                            return None
            self.send_response(HTTPStatus.OK)
            self.send_header("Content-type", ctype)
            self.send_header("Content-Length", str(fs[6]))
            self.send_header("Last-Modified", self.date_time_string(fs.st_mtime))
            self.end_headers()
            return f
        except:
            f.close()
            raise
  \<close>
  \<open>urlsplit_path e p\<close> is \<^verbatim>\<open>urlsplit(p).path\<close> and \<open>url_add_slash e p\<close> is \<^verbatim>\<open>new_url\<close>.
  \<open>ims_utc e v\<close> is the time in seconds of the header value \<open>v\<close> when it parses to a
  date in UTC or without a zone, and \<open>None\<close> when it is ill-formed or in another zone.
\<close>

definition not_modified :: "env \<Rightarrow> handler \<Rightarrow> file_obj \<Rightarrow> bool" where
  "not_modified e h f =
     (if hdr_contains (headers h) ''If-Modified-Since'' \<and>
         \<not> hdr_contains (headers h) ''If-None-Match''
      then (case hdr_get (headers h) ''If-Modified-Since'' of
              None \<Rightarrow> False
            | Some v \<Rightarrow> (case ims_utc e v of None \<Rightarrow> False | Some ims \<Rightarrow> st_mtime f \<le> ims))
      else False)"

definition send_file :: "env \<Rightarrow> handler \<Rightarrow> string \<Rightarrow> (handler \<times> string option) option" where
  "send_file e h p =
     (let ctype = guess_type e p
      in if endswith p ''/'' then
           map_option (\<lambda>h. (h, None)) (send_error e h 404 (Some ''File not found'') None)
         else
           (case open_rb (fs e) p of
              None \<Rightarrow>
                map_option (\<lambda>h. (h, None)) (send_error e h 404 (Some ''File not found'') None)
            | Some f \<Rightarrow>
                if not_modified e h f then
                  do {
                    h \<leftarrow> send_response e h 304 None;
                    Some (end_headers h, None)
                  }
                else
                  do {
                    h \<leftarrow> send_response e h 200 None;
                    let h = send_header h ''Content-type'' ctype;
                    let h = send_header h ''Content-Length'' (str_nat (st_size f));
                    let h = send_header h ''Last-Modified''
                              (date_time_string e (Some (st_mtime f)));
                    Some (end_headers h, Some (content f))
                  }))"

definition send_head :: "env \<Rightarrow> handler \<Rightarrow> (handler \<times> string option) option" where
  "send_head e h =
     (let p = translate_path e (directory h) (path h)
      in if isdir (fs e) p then
           (if \<not> endswith (urlsplit_path e (path h)) ''/'' then
              do {
                h \<leftarrow> send_response e h 301 None;
                let h = send_header h ''Location'' (url_add_slash e (path h));
                let h = send_header h ''Content-Length'' ''0'';
                Some (end_headers h, None)
              }
            else if isfile (fs e) (path_join p ''index.html'')
              then send_file e h (path_join p ''index.html'')
            else if isfile (fs e) (path_join p ''index.htm'')
              then send_file e h (path_join p ''index.htm'')
            else list_directory e h p)
         else send_file e h p)"

text \<open>
  \<^verbatim>\<open>SimpleHTTPRequestHandler.copyfile\<close> is \<^verbatim>\<open>shutil.copyfileobj\<close> (library), with
  \<^verbatim>\<open>COPY_BUFSIZE = 64 * 1024\<close>:
  \<^verbatim>\<open>
    def copyfileobj(fsrc, fdst, length=0):
        if not length:
            length = COPY_BUFSIZE
        fsrc_read = fsrc.read
        fdst_write = fdst.write
        while True:
            buf = fsrc_read(length)
            if not buf:
                break
            fdst_write(buf)
  \<close>
\<close>

function chunks :: "nat \<Rightarrow> 'a list \<Rightarrow> 'a list list" where
  "chunks n xs = (if n = 0 \<or> xs = [] then [] else take n xs # chunks n (drop n xs))"
  by pat_completeness auto
termination
  by (relation "measure (\<lambda>(n, xs). length xs)") auto

declare chunks.simps [simp del]

definition COPY_BUFSIZE :: nat where
  "COPY_BUFSIZE = 64 * 1024"

definition copyfile :: "string \<Rightarrow> handler \<Rightarrow> handler" where
  "copyfile source h = h\<lparr>wfile := wfile h @ map Payload (chunks COPY_BUFSIZE source)\<rparr>"

text \<open>
  \<^verbatim>\<open>SimpleHTTPRequestHandler.do_GET\<close> and \<^verbatim>\<open>do_HEAD\<close> (library):
  \<^verbatim>\<open>
    def do_GET(self):
        f = self.send_head()
        if f:
            try:
                self.copyfile(f, self.wfile)
            finally:
                f.close()
    def do_HEAD(self):
        f = self.send_head()
        if f:
            f.close()
  \<close>
\<close>

definition do_GET :: "env \<Rightarrow> handler \<Rightarrow> handler option" where
  "do_GET e h =
     do {
       (h, f) \<leftarrow> send_head e h;
       Some (case f of None \<Rightarrow> h | Some source \<Rightarrow> copyfile source h)
     }"

definition do_HEAD :: "env \<Rightarrow> handler \<Rightarrow> handler option" where
  "do_HEAD e h =
     do {
       (h, f) \<leftarrow> send_head e h;
       Some h
     }"

text \<open>
  The dispatch of \<^verbatim>\<open>BaseHTTPRequestHandler.handle_one_request\<close> (library), after
  \<^verbatim>\<open>parse_request\<close> has returned \<^verbatim>\<open>True\<close>:
  \<^verbatim>\<open>
            mname = 'do_' + self.command
            if not hasattr(self, mname):
                self.send_error(
                    HTTPStatus.NOT_IMPLEMENTED,
                    "Unsupported method (%r)" % self.command)
                return
            method = getattr(self, mname)
            method()
  \<close>
  The attributes of \<^verbatim>\<open>CORSHTTPRequestHandler\<close> whose name starts with \<^verbatim>\<open>do_\<close> are
  \<^verbatim>\<open>do_OPTIONS\<close>, which the class defines, and \<^verbatim>\<open>do_GET\<close> and \<^verbatim>\<open>do_HEAD\<close>, which it
  inherits from \<^verbatim>\<open>SimpleHTTPRequestHandler\<close>; no class above defines another.
\<close>

definition handle_one_request :: "env \<Rightarrow> handler \<Rightarrow> handler option" where
  "handle_one_request e h =
     (let mname = ''do_'' @ command h
      in if mname = ''do_OPTIONS'' then do_OPTIONS e h
         else if mname = ''do_GET'' then do_GET e h
         else if mname = ''do_HEAD'' then do_HEAD e h
         else send_error e h 501
                (Some (''Unsupported method ('' @ py_repr (command h) @ '')'')) None)"

subsection \<open>The server and the main block\<close>

text \<open>
  \<open>OSError m\<close> is the failure of a system call, \<open>KeyboardInterrupt\<close> the interrupt
  signal, \<open>HandlerError\<close> an exception escaping from a request handler.
\<close>

datatype exn = OSError string | KeyboardInterrupt | HandlerError

datatype socket_state = Open | Listening | Closed

record server =
  server_address :: "string \<times> nat"
  sock :: socket_state
  shutdown_request :: bool
  is_shut_down :: bool

text \<open>
  The process: its working directory, its two output streams (on standard error, one
  entry per traceback printed), the number of calls of \<^verbatim>\<open>socket.bind\<close> so far, and
  what has been written to the connections served.
\<close>

record process =
  cwd :: string
  py_stdout :: stdout
  py_stderr :: "exn list"
  bind_calls :: nat
  sent :: "wire list list"

text \<open>
  \<^verbatim>\<open>socketserver.TCPServer.__init__\<close> with \<^verbatim>\<open>server_bind\<close>, \<^verbatim>\<open>server_activate\<close> and
  \<^verbatim>\<open>server_close\<close> (library). \<open>os_bind n a\<close> is the outcome of the \<open>n\<close>-th call of
  \<^verbatim>\<open>socket.bind\<close> in the life of the process, for the address \<open>a\<close>: an error, or the
  address that \<^verbatim>\<open>getsockname\<close> then returns.
  \<^verbatim>\<open>
    def __init__(self, server_address, RequestHandlerClass, bind_and_activate=True):
        BaseServer.__init__(self, server_address, RequestHandlerClass)
        self.socket = socket.socket(self.address_family, self.socket_type)
        if bind_and_activate:
            try:
                self.server_bind()
                self.server_activate()
            except:
                self.server_close()
                raise
    def server_bind(self):
        ...
        self.socket.bind(self.server_address)
        self.server_address = self.socket.getsockname()
    def server_activate(self):
        self.socket.listen(self.request_queue_size)
    def server_close(self):
        self.socket.close()
  \<close>
\<close>

definition server_close :: "server \<Rightarrow> server" where
  "server_close s = s\<lparr>sock := Closed\<rparr>"

definition TCPServer ::
  "(nat \<Rightarrow> string \<times> nat \<Rightarrow> exn + string \<times> nat) \<Rightarrow> string \<times> nat \<Rightarrow> process
     \<Rightarrow> (exn + server) \<times> process" where
  "TCPServer os_bind address p =
     (let s = \<lparr>server_address = address, sock = Open, shutdown_request = False,
                is_shut_down = False\<rparr>;
          outcome = os_bind (bind_calls p) address;
          p = p\<lparr>bind_calls := bind_calls p + 1\<rparr>
      in case outcome of
           Inl x \<Rightarrow> (Inl x, p)
         | Inr actual \<Rightarrow> (Inr (s\<lparr>server_address := actual, sock := Listening\<rparr>), p))"

text \<open>
  A request as \<^verbatim>\<open>parse_request\<close> leaves it in the handler, and the handler that
  \<^verbatim>\<open>finish_request\<close> creates for it: \<^verbatim>\<open>SimpleHTTPRequestHandler.__init__\<close> sets
  \<^verbatim>\<open>self.directory\<close> to \<^verbatim>\<open>os.getcwd()\<close>.
\<close>

record request =
  r_command :: string
  r_path :: string
  r_version :: string
  r_requestline :: string
  r_headers :: "(string \<times> string) list"

definition new_handler :: "process \<Rightarrow> request \<Rightarrow> handler" where
  "new_handler p r =
     \<lparr>command = r_command r, path = r_path r, request_version = r_version r,
      requestline = r_requestline r, headers = r_headers r, directory = cwd p,
      close_connection = True, headers_buffer = [], wfile = [],
      sys_stdout = py_stdout p, clock_reads = 0\<rparr>"

text \<open>
  \<^verbatim>\<open>BaseServer._handle_request_noblock\<close> (library): an exception of the handler is
  reported on standard error by \<^verbatim>\<open>handle_error\<close> and the server goes on.
  \<^verbatim>\<open>
            try:
                self.process_request(request, client_address)
            except Exception:
                self.handle_error(request, client_address)
                self.shutdown_request(request)
  \<close>
\<close>

definition process_request :: "env \<Rightarrow> request \<Rightarrow> process \<Rightarrow> process" where
  "process_request e r p =
     (case handle_one_request e (new_handler p r) of
        Some h \<Rightarrow> p\<lparr>py_stdout := sys_stdout h, sent := sent p @ [wfile h]\<rparr>
      | None \<Rightarrow> p\<lparr>py_stderr := py_stderr p @ [HandlerError]\<rparr>)"

text \<open>
  \<^verbatim>\<open>BaseServer.serve_forever\<close> and \<^verbatim>\<open>shutdown\<close> (library). What happens while the
  server waits is a list of events: a request arrives, in its environment, or the
  interrupt signal is delivered. A call \<open>Returns\<close>, \<open>Raises\<close> an exception or \<open>Blocks\<close>:
  it has not returned when the events are used up, or it waits for something that
  cannot happen.
  \<^verbatim>\<open>
    def serve_forever(self, poll_interval=0.5):
        self.__is_shut_down.clear()
        try:
            with _ServerSelector() as selector:
                selector.register(self, selectors.EVENT_READ)
                while not self.__shutdown_request:
                    ready = selector.select(poll_interval)
                    if self.__shutdown_request:
                        break
                    if ready:
                        self._handle_request_noblock()
                    self.service_actions()
        finally:
            self.__shutdown_request = False
            self.__is_shut_down.set()
    def shutdown(self):
        self.__shutdown_request = True
        self.__is_shut_down.wait()
  \<close>
\<close>

datatype event = Request env request | Interrupt

datatype 'a result = Returns 'a | Raises exn 'a | Blocks 'a

fun serve_loop :: "server \<Rightarrow> process \<Rightarrow> event list \<Rightarrow> process result" where
  "serve_loop s p [] = (if shutdown_request s then Returns p else Blocks p)"
| "serve_loop s p (ev # evs) =
     (if shutdown_request s then Returns p
      else (case ev of
              Interrupt \<Rightarrow> Raises KeyboardInterrupt p
            | Request e r \<Rightarrow> serve_loop s (process_request e r p) evs))"

definition serve_forever :: "server \<Rightarrow> process \<Rightarrow> event list \<Rightarrow> (server \<times> process) result" where
  "serve_forever s p evs =
     (let s = s\<lparr>is_shut_down := False\<rparr>
      in case serve_loop s p evs of
           Blocks p \<Rightarrow> Blocks (s, p)
         | Returns p \<Rightarrow> Returns (s\<lparr>shutdown_request := False, is_shut_down := True\<rparr>, p)
         | Raises x p \<Rightarrow> Raises x (s\<lparr>shutdown_request := False, is_shut_down := True\<rparr>, p))"

definition shutdown :: "server \<Rightarrow> server result" where
  "shutdown s =
     (let s = s\<lparr>shutdown_request := True\<rparr>
      in if is_shut_down s then Returns s else Blocks s)"

text \<open>
  \<^verbatim>\<open>print(x)\<close> writes \<open>x\<close> and a newline to \<^verbatim>\<open>sys.stdout\<close>. The string of the address
  pair \<^verbatim>\<open>(host, port)\<close> is \<^verbatim>\<open>(\<close>, \<^verbatim>\<open>repr(host)\<close>, a comma and a space, the port in decimal,
  \<^verbatim>\<open>)\<close>.
\<close>

definition py_print :: "nat list \<Rightarrow> process \<Rightarrow> process" where
  "py_print x p = p\<lparr>py_stdout := stdout_write (x @ [10]) (py_stdout p)\<rparr>"

definition str_address :: "string \<times> nat \<Rightarrow> string" where
  "str_address a = ''('' @ py_repr (fst a) @ '', '' @ str_nat (snd a) @ '')''"

text \<open>
  The end of the process: the interpreter flushes standard output; an exception that
  nothing caught is printed on standard error and the exit status is 1.
\<close>

datatype run = Running process server | Exited nat process "server option"

definition finalize :: "process \<Rightarrow> process" where
  "finalize p = p\<lparr>py_stdout := stdout_flush (py_stdout p)\<rparr>"

definition uncaught :: "exn \<Rightarrow> process \<Rightarrow> server option \<Rightarrow> run" where
  "uncaught x p s = Exited 1 (finalize (p\<lparr>py_stderr := py_stderr p @ [x]\<rparr>)) s"

text \<open>
  The main block of \<^verbatim>\<open>simple_server.py\<close>; leaving the \<^verbatim>\<open>with\<close> block calls
  \<^verbatim>\<open>server_close\<close>.
  \<^verbatim>\<open>
    PORT = 8000
    with socketserver.TCPServer(("0.0.0.0", PORT), CORSHTTPRequestHandler) as httpd:
        print(f"<U+1F680> OKR Phoenix Project Server starting on port {PORT}")
        print(f"<U+1F4C2> Serving files from: {httpd.server_address}")
        print(f"<U+1F310> Access your application at: http://localhost:{PORT}")
        print(f"<U+1F9EA> Test API page: http://localhost:{PORT}/test-api.html")
        print(f"<U+1F510> Login page: http://localhost:{PORT}/okr-login.html")
        print("=" * 60)
        sys.stdout.flush()
        try:
            httpd.serve_forever()
        except KeyboardInterrupt:
            print("\n<U+1F44B> Server shutting down...")
            httpd.shutdown()
  \<close>
\<close>

definition PORT :: nat where
  "PORT = 8000"

definition banner :: "server \<Rightarrow> nat list list" where
  "banner httpd =
     [[0x1F680] @ text_of ('' OKR Phoenix Project Server starting on port '' @ str_nat PORT),
      [0x1F4C2] @ text_of ('' Serving files from: '' @ str_address (server_address httpd)),
      [0x1F310] @ text_of ('' Access your application at: http://localhost:'' @ str_nat PORT),
      [0x1F9EA] @ text_of ('' Test API page: http://localhost:'' @ str_nat PORT @
                             ''/test-api.html''),
      [0x1F510] @ text_of ('' Login page: http://localhost:'' @ str_nat PORT @
                             ''/okr-login.html''),
      text_of (replicate 60 CHR ''='')]"

definition farewell :: "nat list" where
  "farewell = [10, 0x1F44B] @ text_of '' Server shutting down...''"

definition main ::
  "(nat \<Rightarrow> string \<times> nat \<Rightarrow> exn + string \<times> nat) \<Rightarrow> process \<Rightarrow> event list \<Rightarrow> run" where
  "main os_bind p evs =
     (case TCPServer os_bind (''0.0.0.0'', PORT) p of
        (Inl x, p) \<Rightarrow> uncaught x p None
      | (Inr httpd, p) \<Rightarrow>
          let p = fold py_print (banner httpd) p;
              p = p\<lparr>py_stdout := stdout_flush (py_stdout p)\<rparr>
          in case serve_forever httpd p evs of
               Blocks (httpd, p) \<Rightarrow> Running p httpd
             | Returns (httpd, p) \<Rightarrow> Exited 0 (finalize p) (Some (server_close httpd))
             | Raises x (httpd, p) \<Rightarrow>
                 if x = KeyboardInterrupt then
                   (let p = py_print farewell p
                    in case shutdown httpd of
                         Returns httpd \<Rightarrow> Exited 0 (finalize p) (Some (server_close httpd))
                       | Raises y httpd \<Rightarrow> uncaught y p (Some (server_close httpd))
                       | Blocks httpd \<Rightarrow> Running p httpd)
                 else uncaught x p (Some (server_close httpd)))"

subsection \<open>What a client and the console observe\<close>

text \<open>
  A response on the wire is a header block, whose first line is the status line,
  followed by the pieces of the body. \<open>header_values k ls\<close> lists the values of the
  header lines of \<open>ls\<close> whose keyword is \<open>k\<close>.
\<close>

fun response_status :: "wire list \<Rightarrow> nat option" where
  "response_status (Header_Block (Status_Line version code message # ls) # ws) = Some code"
| "response_status ws = None"


fun payload :: "wire \<Rightarrow> string" where
  "payload (Payload b) = b"
| "payload (Header_Block ls) = []"

fun response_body :: "wire list \<Rightarrow> string" where
  "response_body (Header_Block ls # ws) = concat (map payload ws)"
| "response_body ws = concat (map payload ws)"


definition cors_headers :: "hline list" where
  "cors_headers =
     [Header_Line ''Access-Control-Allow-Origin'' ''*'',
      Header_Line ''Access-Control-Allow-Methods'' ''GET, POST, OPTIONS, PUT, DELETE'',
      Header_Line ''Access-Control-Allow-Headers'' ''Content-Type, Authorization'']"

text \<open>The answer of the server to the request \<open>r\<close>: what the handler writes to the connection.\<close>

definition reply :: "env \<Rightarrow> process \<Rightarrow> request \<Rightarrow> wire list option" where
  "reply e p r = map_option wfile (handle_one_request e (new_handler p r))"


text \<open>
  A log line has the form \<^verbatim>\<open>[YYYY-MM-DD HH:MM:SS] message\<close> and ends with its only
  newline. In the pattern of \<open>matches\<close>, \<^verbatim>\<open>d\<close> stands for a decimal digit.
\<close>

definition isdigit :: "char \<Rightarrow> bool" where
  "isdigit c = (c \<in> set ''0123456789'')"

fun matches :: "string \<Rightarrow> string \<Rightarrow> bool" where
  "matches [] [] = True"
| "matches (p # ps) (c # cs) = ((if p = CHR ''d'' then isdigit c else c = p) \<and> matches ps cs)"
| "matches ps cs = False"



definition log_line :: "env \<Rightarrow> nat \<Rightarrow> string \<Rightarrow> string" where
  "log_line e n message = ''['' @ strftime (localtime e n) @ ''] '' @ message @ [CHR 10]"

definition access_message :: "string \<Rightarrow> nat \<Rightarrow> string" where
  "access_message line code =
     [CHR 0x22] @ line @ [CHR 0x22, CHR '' ''] @ str_nat code @ '' -''"

definition error_message :: "nat \<Rightarrow> string \<Rightarrow> string" where
  "error_message code message = ''code '' @ str_nat code @ '', message '' @ message"




fun run_process :: "run \<Rightarrow> process" where
  "run_process (Exited n p s) = p"
| "run_process (Running p s) = p"


definition console_output :: "run \<Rightarrow> nat list" where
  "console_output x = emitted (py_stdout (run_process x))"

subsection \<open>An example installation\<close>

text \<open>
  The working directory \<^verbatim>\<open>/srv/app\<close> holds the one file \<^verbatim>\<open>test-api.html\<close>.
\<close>

definition example_file :: file_obj where
  "example_file = \<lparr>content = ''<html>ok</html>'', st_size = 15, st_mtime = 1000\<rparr>"

definition example_fs :: filesystem where
  "example_fs =
     \<lparr>isdir = (\<lambda>p. p = ''/srv/app'' \<or> p = ''/srv/app/''),
      isfile = (\<lambda>p. p = ''/srv/app/test-api.html''),
      islink = (\<lambda>p. False),
      open_rb = (\<lambda>p. if p = ''/srv/app/test-api.html'' then Some example_file else None),
      listdir = (\<lambda>p. if p = ''/srv/app'' \<or> p = ''/srv/app/'' then Some [''test-api.html'']
                      else None)\<rparr>"

definition example_env :: env where
  "example_env =
     \<lparr>fs = example_fs,
      localtime = (\<lambda>n. \<lparr>tm_year = 2026, tm_mon = 11, tm_mday = 4, tm_hour = 9, tm_min = 30,
                         tm_sec = 5\<rparr>),
      date_time_string = (\<lambda>t. ''Wed, 04 Nov 2026 09:30:05 GMT''),
      version_string = ''SimpleHTTP/0.6 Python/3.11.10'',
      error_page = (\<lambda>code message explain. ''<h1>'' @ message @ ''</h1>''),
      guess_type = (\<lambda>p. ''text/html''),
      pct_decode = (\<lambda>s. s),
      urlsplit_path = (\<lambda>p. before CHR ''#'' (before CHR ''?'' p)),
      url_add_slash = (\<lambda>p. p @ ''/''),
      render_listing = (\<lambda>p entries. ''<ul></ul>''),
      ims_utc = (\<lambda>v. if v = ''Wed, 04 Nov 2026 09:00:00 GMT'' then Some 2000 else None)\<rparr>"

definition example_process :: process where
  "example_process =
     \<lparr>cwd = ''/srv/app'', py_stdout = \<lparr>pending = [], emitted = []\<rparr>, py_stderr = [],
      bind_calls = 0, sent = []\<rparr>"

definition example_request :: "string \<Rightarrow> string \<Rightarrow> (string \<times> string) list \<Rightarrow> request" where
  "example_request method p hs =
     \<lparr>r_command = method, r_path = p, r_version = ''HTTP/1.1'',
      r_requestline = method @ '' '' @ p @ '' HTTP/1.1'', r_headers = hs\<rparr>"

text \<open>
  Two behaviours of the operating system: every \<^verbatim>\<open>bind\<close> succeeds, or the first
  \<^verbatim>\<open>bind\<close> finds the port in use and a later one would succeed.
\<close>

definition free_port :: "nat \<Rightarrow> string \<times> nat \<Rightarrow> exn + string \<times> nat" where
  "free_port n a = Inr a"

definition busy_port :: "nat \<Rightarrow> string \<times> nat \<Rightarrow> exn + string \<times> nat" where
  "busy_port n a = (if n = 0 then Inl (OSError ''Address already in use'') else Inr a)"

subsection \<open>Auxiliary notions for the proofs\<close>

text \<open>
  \<open>replies e h h' code message extra body err\<close> describes the handler \<open>h'\<close> after a
  response to the handler \<open>h\<close>: one header block (none for an HTTP/0.9 request) with the
  status line, the \<^verbatim>\<open>Server\<close> and \<^verbatim>\<open>Date\<close> headers, the headers \<open>extra\<close> and the three
  headers of \<^verbatim>\<open>end_headers\<close>; then the pieces \<open>body\<close>; on standard output the access
  line, after the error line when \<open>err\<close> is the message of an error.
\<close>

definition reason :: "nat \<Rightarrow> string option \<Rightarrow> string" where
  "reason code message =
     (case message of
        None \<Rightarrow> (case responses code of None \<Rightarrow> [] | Some (shortmsg, longmsg) \<Rightarrow> shortmsg)
      | Some m \<Rightarrow> m)"

definition std_headers :: "env \<Rightarrow> nat \<Rightarrow> string \<Rightarrow> hline list" where
  "std_headers e code message =
     [Status_Line protocol_version code message,
      Header_Line ''Server'' (version_string e),
      Header_Line ''Date'' (date_time_string e None)]"

definition logged :: "env \<Rightarrow> handler \<Rightarrow> nat \<Rightarrow> string option \<Rightarrow> stdout" where
  "logged e h code err =
     \<lparr>pending = [],
      emitted = emitted (sys_stdout h) @ pending (sys_stdout h) @
        (case err of
           None \<Rightarrow> text_of (log_line e (clock_reads h) (access_message (requestline h) code))
         | Some m \<Rightarrow>
             text_of (log_line e (clock_reads h) (error_message code m)) @
             text_of (log_line e (Suc (clock_reads h)) (access_message (requestline h) code)))\<rparr>"

definition header_block :: "env \<Rightarrow> handler \<Rightarrow> nat \<Rightarrow> string \<Rightarrow> hline list \<Rightarrow> wire list" where
  "header_block e h code message extra =
     (if request_version h \<noteq> ''HTTP/0.9''
      then [Header_Block (headers_buffer h @ std_headers e code message @ extra @ cors_headers @
                          [End_Line])]
      else [])"

definition replies ::
  "env \<Rightarrow> handler \<Rightarrow> handler \<Rightarrow> nat \<Rightarrow> string \<Rightarrow> hline list \<Rightarrow> string list \<Rightarrow> string option
     \<Rightarrow> bool" where
  "replies e h h' code message extra body err \<longleftrightarrow>
     request_version h' = request_version h \<and> command h' = command h \<and>
     wfile h' = wfile h @ header_block e h code message extra @ map Payload body \<and>
     sys_stdout h' = logged e h code err"






section \<open>Properties\<close>

subsection \<open>The primitives of a response\<close>

lemma length_lower [simp]: "length (lower s) = length s"
  by (simp add: lower_def)

lemma lower_Connection: "lower ''Connection'' = ''connection''"
  by code_simp

lemma lower_close: "lower ''close'' = ''close''"
  by code_simp

lemma lower_neq_len: "length k \<noteq> 10 \<Longrightarrow> lower k \<noteq> ''connection''"
proof
  assume "lower k = ''connection''"
  then have "length (lower k) = 10" by simp
  moreover assume "length k \<noteq> 10"
  ultimately show False by simp
qed

lemma send_header_plain:
  "length k \<noteq> 10 \<Longrightarrow> send_header h k v =
     (if request_version h \<noteq> ''HTTP/0.9''
      then h\<lparr>headers_buffer := headers_buffer h @ [Header_Line k v]\<rparr> else h)"
  by (simp add: send_header_def lower_neq_len)

lemma send_header_Connection_close:
  "send_header h ''Connection'' ''close'' =
     (if request_version h \<noteq> ''HTTP/0.9''
      then h\<lparr>headers_buffer := headers_buffer h @ [Header_Line ''Connection'' ''close''],
             close_connection := True\<rparr>
      else h\<lparr>close_connection := True\<rparr>)"
  by (simp add: send_header_def lower_Connection lower_close)

lemma log_message_Some:
  "percent format args = Some message \<Longrightarrow>
   log_message e h format args =
     Some (h\<lparr>clock_reads := Suc (clock_reads h),
             sys_stdout := \<lparr>pending = [],
               emitted = emitted (sys_stdout h) @ pending (sys_stdout h) @
                         text_of (log_line e (clock_reads h) message)\<rparr>\<rparr>)"
  by (simp add: log_message_def log_line_def stdout_flush_def stdout_write_def)

lemma log_request_eq:
  "log_request e h code =
     Some (h\<lparr>clock_reads := Suc (clock_reads h),
             sys_stdout := \<lparr>pending = [],
               emitted = emitted (sys_stdout h) @ pending (sys_stdout h) @
                         text_of (log_line e (clock_reads h)
                                    (access_message (requestline h) code))\<rparr>\<rparr>)"
  unfolding log_request_def
  by (subst log_message_Some [where message = "access_message (requestline h) code"])
     (simp_all add: access_message_def)

lemma str_int_int [simp]: "str_int (int n) = str_nat n"
  by (simp add: str_int_def)


lemma end_headers_eq:
  "end_headers h =
     (if request_version h \<noteq> ''HTTP/0.9''
      then h\<lparr>headers_buffer := [],
             wfile := wfile h @ [Header_Block (headers_buffer h @ cors_headers @ [End_Line])]\<rparr>
      else h)"
  by (simp add: end_headers_def send_header_plain base_end_headers_def flush_headers_def
        cors_headers_def Let_def)

lemma send_response_eq:
  "send_response e h code message =
     Some (h\<lparr>clock_reads := Suc (clock_reads h),
             sys_stdout := \<lparr>pending = [],
               emitted = emitted (sys_stdout h) @ pending (sys_stdout h) @
                         text_of (log_line e (clock_reads h)
                                    (access_message (requestline h) code))\<rparr>,
             headers_buffer :=
               (if request_version h \<noteq> ''HTTP/0.9''
                then headers_buffer h @ std_headers e code (reason code message)
                else headers_buffer h)\<rparr>)"
  by (simp add: send_response_def log_request_eq send_response_only_def send_header_plain
        Let_def reason_def std_headers_def)

lemma reason_simps:
  "reason code (Some m) = m"
  "reason 200 None = ''OK''"
  "reason 301 None = ''Moved Permanently''"
  "reason 304 None = ''Not Modified''"
  by (simp_all add: reason_def responses_def)

lemmas reply_simps =
  send_response_eq send_header_plain send_header_Connection_close end_headers_eq
  replies_def header_block_def logged_def reason_simps Let_def

subsection \<open>Every path through the handler\<close>


lemma do_OPTIONS_replies:
  "\<exists>h'. do_OPTIONS e h = Some h' \<and> replies e h h' 200 ''OK'' [] [] None"
  by (simp add: do_OPTIONS_def reply_simps)























lemma new_handler_simps [simp]:
  "request_version (new_handler p r) = r_version r"
  "command (new_handler p r) = r_command r"
  "path (new_handler p r) = r_path r"
  "headers (new_handler p r) = r_headers r"
  "requestline (new_handler p r) = r_requestline r"
  "directory (new_handler p r) = cwd p"
  "headers_buffer (new_handler p r) = []"
  "wfile (new_handler p r) = []"
  "sys_stdout (new_handler p r) = py_stdout p"
  "clock_reads (new_handler p r) = 0"
  by (simp_all add: new_handler_def)



subsection \<open>The headers of every response\<close>




subsection \<open>Pre-flight requests\<close>



lemma log_message_fs: "log_message (e\<lparr>fs := f\<rparr>) h format args = log_message e h format args"
  by (simp add: log_message_def)

lemma send_response_fs: "send_response (e\<lparr>fs := f\<rparr>) h code m = send_response e h code m"
  by (simp add: send_response_def log_request_def log_message_fs)

lemma do_OPTIONS_fs: "do_OPTIONS (e\<lparr>fs := f\<rparr>) h = do_OPTIONS e h"
  by (simp add: do_OPTIONS_def send_response_fs)

text \<open>
  Claim C2. A request with the method \<^verbatim>\<open>OPTIONS\<close>, whatever its path, is answered with the
  status 200, in the 2xx range, and an empty body, and the handler does not touch the
  file system: it does the same in every file system. The status is on the wire when
  the request carries a version other than \<^verbatim>\<open>HTTP/0.9\<close>.
\<close>

theorem options_empty_success:
  assumes "r_command r = ''OPTIONS''"
  shows "\<exists>ws. reply e p r = Some ws \<and>
           (r_version r \<noteq> ''HTTP/0.9'' \<longrightarrow> response_status ws = Some 200) \<and>
           response_body ws = [] \<and>
           (\<forall>f. handle_one_request (e\<lparr>fs := f\<rparr>) (new_handler p r) =
                  handle_one_request e (new_handler p r))"
proof -
  have d: "handle_one_request e' (new_handler p r) = do_OPTIONS e' (new_handler p r)" for e'
    using assms by (simp add: handle_one_request_def)
  obtain h' where h': "do_OPTIONS e (new_handler p r) = Some h'"
    "replies e (new_handler p r) h' 200 ''OK'' [] [] None"
    using do_OPTIONS_replies by blast
  from h' show ?thesis
    by (simp add: reply_def d do_OPTIONS_fs replies_def header_block_def std_headers_def)
qed

theorem options_empty_success_witness:
  "r_command (example_request ''OPTIONS'' ''/anything'' []) = ''OPTIONS'' \<and>
   r_version (example_request ''OPTIONS'' ''/anything'' []) \<noteq> ''HTTP/0.9'' \<and>
   (\<exists>ws. reply example_env example_process (example_request ''OPTIONS'' ''/anything'' []) =
           Some ws \<and> response_status ws = Some 200 \<and> response_body ws = [])"
proof -
  have c: "r_command (example_request ''OPTIONS'' ''/anything'' []) = ''OPTIONS''"
    and v: "r_version (example_request ''OPTIONS'' ''/anything'' []) \<noteq> ''HTTP/0.9''"
    by (simp_all add: example_request_def)
  from c v options_empty_success [OF c, of example_env example_process] show ?thesis
    by blast
qed

subsection \<open>The methods that reach file serving\<close>





















subsection \<open>Files that exist and files that do not\<close>







subsection \<open>The lines of the log\<close>

lemma isdigit_digit_char [simp]: "isdigit (digit_char n)"
  unfolding isdigit_def digit_char_def by (rule nth_mem) simp

lemma digit_char_not_newline [simp]: "digit_char n \<noteq> CHR 10" "CHR 10 \<noteq> digit_char n"
  using isdigit_digit_char [of n] by (auto simp: isdigit_def)

lemma str_nat_no_newline [simp]: "CHR 10 \<notin> set (str_nat n)"
  by (induction n rule: str_nat.induct) (subst str_nat.simps, auto)

lemma str_nat_1: "n < 10 \<Longrightarrow> str_nat n = [digit_char n]"
  by (subst str_nat.simps) simp

lemma str_nat_2: "10 \<le> n \<Longrightarrow> n < 100 \<Longrightarrow> str_nat n = [digit_char (n div 10), digit_char n]"
  by (subst str_nat.simps) (simp add: str_nat_1)

lemma str_nat_3:
  "100 \<le> n \<Longrightarrow> n < 1000 \<Longrightarrow>
   str_nat n = [digit_char (n div 10 div 10), digit_char (n div 10), digit_char n]"
  by (subst str_nat.simps) (simp add: str_nat_2)

lemma str_nat_4:
  "1000 \<le> n \<Longrightarrow> n < 10000 \<Longrightarrow>
   str_nat n = [digit_char (n div 10 div 10 div 10), digit_char (n div 10 div 10),
                digit_char (n div 10), digit_char n]"
  by (subst str_nat.simps) (simp add: str_nat_3)












subsection \<open>Starting and stopping\<close>


lemma process_request_cwd: "cwd (process_request e r p) = cwd p"
  and process_request_bind_calls: "bind_calls (process_request e r p) = bind_calls p"
  by (simp_all add: process_request_def split: option.splits)





text \<open>
  Claim C8. When binding the listening socket fails, the process does not start
  serving: the error is printed on standard error, nothing is printed on standard
  output, the exit status is 1 and \<^verbatim>\<open>bind\<close> has been called once, whatever a second
  call would have returned.
\<close>

theorem bind_failure_exits:
  assumes "os_bind (bind_calls p) (''0.0.0.0'', PORT) = Inl x"
  shows "main os_bind p evs =
           Exited 1 (p\<lparr>py_stdout := stdout_flush (py_stdout p), py_stderr := py_stderr p @ [x],
                       bind_calls := bind_calls p + 1\<rparr>) None"
  using assms
  by (simp add: main_def TCPServer_def uncaught_def finalize_def Let_def)


theorem bind_failure_exits_witness:
  "busy_port (bind_calls example_process) (''0.0.0.0'', PORT) =
     Inl (OSError ''Address already in use'') \<and>
   busy_port (bind_calls example_process + 1) (''0.0.0.0'', PORT) = Inr (''0.0.0.0'', PORT) \<and>
   main busy_port example_process [] =
   Exited 1
     (example_process\<lparr>py_stdout := stdout_flush (py_stdout example_process),
        py_stderr := py_stderr example_process @ [OSError ''Address already in use''],
        bind_calls := bind_calls example_process + 1\<rparr>) None"
proof -
  have b: "busy_port (bind_calls example_process) (''0.0.0.0'', PORT) =
             Inl (OSError ''Address already in use'')"
    and c: "busy_port (bind_calls example_process + 1) (''0.0.0.0'', PORT) =
              Inr (''0.0.0.0'', PORT)"
    by (simp_all add: example_process_def busy_port_def)
  from bind_failure_exits
         [of busy_port example_process "OSError ''Address already in use''" "[]", OF b] b c
  show ?thesis
    by (intro conjI)
qed

lemma str_nat_PORT: "str_nat PORT = ''8000''"
  by (simp add: PORT_def str_nat_4 digit_char_def)

lemma py_repr_host: "py_repr ''0.0.0.0'' = [CHR 0x27] @ ''0.0.0.0'' @ [CHR 0x27]"
  by code_simp

text \<open>
  Claim C9 says that the banner announces the port, the serving directory and example
  URLs. The second line of the banner, \<^verbatim>\<open>Serving files from:\<close>, is followed by
  \<^verbatim>\<open>httpd.server_address\<close>, the address the socket is bound to, and not by a directory:
  in every working directory \<open>d\<close> the banner is the same six lines.
\<close>

theorem banner_names_the_address:
  "console_output (main free_port (example_process\<lparr>cwd := d\<rparr>) []) =
     concat (map (\<lambda>l. l @ [10])
       [[0x1F680] @ text_of '' OKR Phoenix Project Server starting on port 8000'',
        [0x1F4C2] @ text_of ('' Serving files from: ('' @ [CHR 0x27] @ ''0.0.0.0'' @
                              [CHR 0x27] @ '', 8000)''),
        [0x1F310] @ text_of '' Access your application at: http://localhost:8000'',
        [0x1F9EA] @ text_of '' Test API page: http://localhost:8000/test-api.html'',
        [0x1F510] @ text_of '' Login page: http://localhost:8000/okr-login.html'',
        text_of (replicate 60 CHR ''='')])"
  by (simp add: main_def TCPServer_def serve_forever_def Let_def console_output_def
        banner_def free_port_def py_print_def stdout_write_def stdout_flush_def str_address_def
        str_nat_PORT py_repr_host example_process_def text_of_def)

subsection \<open>Paths stay below the serving root\<close>

lemma split_on_nonempty [simp]: "split_on c s \<noteq> []"
  by (induction s) (auto split: list.splits)



lemma split_on_no_sep_word: "c \<notin> set w \<Longrightarrow> split_on c w = [w]"
  by (induction w) (auto split: list.splits)

lemma split_on_append_word:
  "c \<notin> set w \<Longrightarrow> split_on c (a @ w) = butlast (split_on c a) @ [last (split_on c a) @ w]"
  by (induction a) (auto simp: split_on_no_sep_word split: list.splits)














end
